theory Spec2Isabelle
  imports Main
begin

section \<open>Data model (main/models.py)\<close>

text \<open>
  A \<open>datetime\<close> is modelled by the instant it denotes, in microseconds since the epoch
  (an \<open>int\<close>): the cut-off is validated to carry a timezone and the registry sends its
  timestamps with one, so Python compares the instants. An optional field
  (\<open>datetime | None\<close>) is an \<open>option\<close>.
\<close>

type_synonym datetime = int

datatype TimestampType = UPDATED_AT | CREATED_AT

datatype AccountType = ORG | PERSONAL

record ContainerModel =
  tags :: "string list"

record MetadataModel =
  container :: ContainerModel

record PackageVersionResponse =
  id_v :: int
  name_v :: string
  metadata :: MetadataModel
  created_at :: "datetime option"
  updated_at :: "datetime option"

record Inputs =
  image_names :: "string list"
  cut_off :: datetime
  timestamp_to_use :: TimestampType
  account_type :: AccountType
  org_name :: "string option"
  untagged_only :: bool
  skip_tags :: "string list"
  keep_at_least :: int
  filter_tags :: "string list"
  filter_include_untagged :: bool

section \<open>Shell-style wildcards (the standard library's fnmatch)\<close>

text \<open>
  \<open>fnmatch(name, pat)\<close> of the Python standard library, on a POSIX system (where the
  case normalisation is the identity): the pattern is translated to a list of tokens and
  the whole name is matched against them. \<open>*\<close> matches any run of characters, \<open>?\<close> one
  character, \<open>[seq]\<close> one character of \<open>seq\<close>, \<open>[!seq]\<close> one character not in \<open>seq\<close>;
  a \<open>[\<close> with no closing \<open>]\<close> stands for itself. Inside brackets \<open>a-z\<close> is a range, a
  \<open>]\<close> directly after \<open>[\<close> or \<open>[!\<close> belongs to the set.
\<close>

datatype glob_token = STAR | ANY_CHAR | LITERAL char | CHAR_SET bool "(char \<times> char) list"

text \<open>The index of the \<open>]\<close> that closes a bracket, counted in the text after the \<open>[\<close>.\<close>

fun find_index_from :: "nat \<Rightarrow> char \<Rightarrow> string \<Rightarrow> nat option" where
  "find_index_from j c pat =
     (case drop j pat of
        [] \<Rightarrow> None
      | _ # _ \<Rightarrow> Some (j + length (takeWhile (\<lambda>d. d \<noteq> c) (drop j pat))))"

definition closing_bracket :: "string \<Rightarrow> nat option" where
  "closing_bracket pat =
     (let j = (if 0 < length pat \<and> pat ! 0 = CHR ''!'' then 1 else 0);
          j = (if j < length pat \<and> pat ! j = CHR '']'' then j + 1 else j)
      in case find_index_from j (CHR '']'') pat of
           None \<Rightarrow> None
         | Some k \<Rightarrow> (if k < length pat then Some k else None))"

fun char_ranges :: "string \<Rightarrow> (char \<times> char) list" where
  "char_ranges (lo # m # hi # stuff) =
     (if m = CHR ''-'' then (lo, hi) # char_ranges stuff
      else (lo, lo) # char_ranges (m # hi # stuff))"
| "char_ranges (c # stuff) = (c, c) # char_ranges stuff"
| "char_ranges [] = []"

definition bracket_token :: "string \<Rightarrow> glob_token" where
  "bracket_token stuff =
     (case stuff of
        c # rest \<Rightarrow>
          (if c = CHR ''!'' then CHAR_SET True (char_ranges rest)
           else CHAR_SET False (char_ranges stuff))
      | [] \<Rightarrow> CHAR_SET False [])"

function translate :: "string \<Rightarrow> glob_token list" where
  "translate [] = []"
| "translate (c # pat) =
     (if c = CHR ''*'' then STAR # translate pat
      else if c = CHR ''?'' then ANY_CHAR # translate pat
      else if c = CHR ''['' then
        (case closing_bracket pat of
           None \<Rightarrow> LITERAL c # translate pat
         | Some j \<Rightarrow> bracket_token (take j pat) # translate (drop (Suc j) pat))
      else LITERAL c # translate pat)"
  by pat_completeness auto
termination
  by (relation "measure length") auto

definition in_ranges :: "char \<Rightarrow> (char \<times> char) list \<Rightarrow> bool" where
  "in_ranges c ranges =
     list_ex (\<lambda>(lo, hi). (of_char lo :: nat) \<le> of_char c \<and> (of_char c :: nat) \<le> of_char hi) ranges"

fun match_tokens :: "glob_token list \<Rightarrow> string \<Rightarrow> bool" where
  "match_tokens [] name = (name = [])"
| "match_tokens (STAR # toks) [] = match_tokens toks []"
| "match_tokens (STAR # toks) (c # name) =
     (match_tokens toks (c # name) \<or> match_tokens (STAR # toks) name)"
| "match_tokens (ANY_CHAR # toks) [] = False"
| "match_tokens (ANY_CHAR # toks) (c # name) = match_tokens toks name"
| "match_tokens (LITERAL d # toks) [] = False"
| "match_tokens (LITERAL d # toks) (c # name) = (c = d \<and> match_tokens toks name)"
| "match_tokens (CHAR_SET negated ranges # toks) [] = False"
| "match_tokens (CHAR_SET negated ranges # toks) (c # name) =
     (in_ranges c ranges \<noteq> negated \<and> match_tokens toks name)"

definition fnmatch :: "string \<Rightarrow> string \<Rightarrow> bool" where
  "fnmatch name pat = match_tokens (translate pat) name"

section \<open>The retention filter (main/main.py, select_package_versions_to_delete)\<close>

text \<open>
  Each selected version becomes a task running \<open>GithubAPI.delete_package\<close> with the
  account type, the organisation, the image name and the version's id.
\<close>

datatype delete_task = delete_package AccountType "string option" string int

record loop_state =
  index :: int
  tasks :: "delete_task list"

text \<open>\<open>getattr(version, inputs.timestamp_to_use.value)\<close>\<close>

definition timestamp_of :: "TimestampType \<Rightarrow> PackageVersionResponse \<Rightarrow> datetime option" where
  "timestamp_of t version =
     (case t of UPDATED_AT \<Rightarrow> updated_at version | CREATED_AT \<Rightarrow> created_at version)"

text \<open>\<open>any(fnmatch(tag, pattern) for tag in image_tags)\<close>\<close>

definition any_tag_matches :: "string list \<Rightarrow> string \<Rightarrow> bool" where
  "any_tag_matches image_tags pattern = list_ex (\<lambda>tag. fnmatch tag pattern) image_tags"

text \<open>
  The loop over \<open>inputs.filter_tags\<close>: the first pattern that some tag matches sets
  \<open>delete_image\<close> and leaves the loop (\<open>break\<close>).
\<close>

fun filter_tags_loop :: "string list \<Rightarrow> string list \<Rightarrow> bool \<Rightarrow> bool" where
  "filter_tags_loop [] image_tags delete_image = delete_image"
| "filter_tags_loop (filter_tag # rest) image_tags delete_image =
     (if any_tag_matches image_tags filter_tag then True
      else filter_tags_loop rest image_tags delete_image)"

text \<open>The loop over \<open>inputs.skip_tags\<close>: every pattern is tried, a match clears the flag.\<close>

fun skip_tags_loop :: "string list \<Rightarrow> string list \<Rightarrow> bool \<Rightarrow> bool" where
  "skip_tags_loop [] image_tags delete_image = delete_image"
| "skip_tags_loop (skip_tag # rest) image_tags delete_image =
     skip_tags_loop rest image_tags
       (if any_tag_matches image_tags skip_tag then False else delete_image)"

text \<open>
  One pass of the \<open>async for\<close> body. Every \<open>continue\<close> leaves the state as it is; only a
  version that reaches the end of the body increments \<open>index\<close>. The chained comparison
  \<open>0 < inputs.keep_at_least == index\<close> is \<open>0 < keep_at_least and keep_at_least == index\<close>.
  Every \<open>PackageVersionResponse\<close> has its metadata, container and tags (they are required
  fields), so \<open>image_tags\<close> is always \<open>version.metadata.container.tags\<close>.
\<close>

definition loop_body :: "string \<Rightarrow> Inputs \<Rightarrow> loop_state \<Rightarrow> PackageVersionResponse \<Rightarrow> loop_state" where
  "loop_body image_name inputs s version =
     (if 0 < keep_at_least inputs \<and> keep_at_least inputs = index s then s
      else
        (case timestamp_of (timestamp_to_use inputs) version of
           None \<Rightarrow> s
         | Some updated_or_created_at \<Rightarrow>
             (if cut_off inputs < updated_or_created_at then s
              else
                (let image_tags = tags (container (metadata version)) in
                 if untagged_only inputs \<and> image_tags \<noteq> [] then s
                 else if image_tags = [] \<and> \<not> filter_include_untagged inputs then s
                 else
                   (let delete_image = (filter_tags inputs = []);
                        delete_image = filter_tags_loop (filter_tags inputs) image_tags delete_image;
                        delete_image = skip_tags_loop (skip_tags inputs) image_tags delete_image
                    in \<lparr>index = index s + 1,
                        tasks = (if delete_image
                                 then tasks s @ [delete_package (account_type inputs) (org_name inputs)
                                                   image_name (id_v version)]
                                 else tasks s)\<rparr>)))))"

text \<open>
  The loop runs over the versions that \<open>GithubAPI.list_package_versions\<close> delivers, in
  the order of the listing. \<open>state_after\<close> is the state of the loop once the first \<open>k\<close>
  versions have been processed; the function returns the tasks of the state after all of
  them.
\<close>

definition state_after :: "string \<Rightarrow> Inputs \<Rightarrow> PackageVersionResponse list \<Rightarrow> nat \<Rightarrow> loop_state" where
  "state_after image_name inputs versions k =
     foldl (loop_body image_name inputs) \<lparr>index = 0, tasks = []\<rparr> (take k versions)"

definition select_package_versions_to_delete ::
    "string \<Rightarrow> Inputs \<Rightarrow> PackageVersionResponse list \<Rightarrow> delete_task list" where
  "select_package_versions_to_delete image_name inputs versions =
     tasks (foldl (loop_body image_name inputs) \<lparr>index = 0, tasks = []\<rparr> versions)"

section \<open>Exceptions, JSON values and HTTP responses\<close>

text \<open>
  The exceptions the code can meet. \<open>TimeoutException\<close> stands for the httpx exception
  and its subclasses, \<open>TransportError\<close> for every other failure of a request,
  \<open>HTTPStatusError\<close> is what \<open>raise_for_status\<close> raises, \<open>OverflowError\<close> and \<open>OSError\<close>
  are what the conversion of a timestamp to local time can raise, and \<open>SystemExit\<close> is
  what \<open>exit(1)\<close> raises to end the process.
\<close>

datatype exn =
    KeyError string
  | ValueError
  | TypeError
  | JSONDecodeError
  | HTTPStatusError int
  | OverflowError
  | OSError
  | TimeoutException
  | TransportError
  | SystemExit int

datatype json =
    JNull
  | JBool bool
  | JNumber int
  | JString string
  | JArray "json list"
  | JObject "(string \<times> json) list"

text \<open>
  A response: its status, its headers (looked up by lower-case name, httpx compares header
  names without case) and its body as decoded by \<open>response.json()\<close>, \<open>None\<close> when the
  body is not JSON.
\<close>

record Response =
  status_code :: int
  headers :: "string \<rightharpoonup> string"
  body :: "json option"

datatype http_result = Responded Response | Raised exn

record AsyncClient =
  http_get :: "string \<Rightarrow> http_result"
  http_delete :: "string \<Rightarrow> http_result"

definition is_error :: "Response \<Rightarrow> bool" where
  "is_error response = (400 \<le> status_code response \<and> status_code response \<le> 599)"

definition is_success :: "Response \<Rightarrow> bool" where
  "is_success response = (200 \<le> status_code response \<and> status_code response \<le> 299)"

text \<open>
  \<open>response.is_error\<close> is a status from 400 to 599, \<open>response.is_success\<close> one from 200
  to 299; \<open>raise_for_status\<close> raises for every status that is not a success.
\<close>

definition raise_for_status :: "Response \<Rightarrow> exn + unit" where
  "raise_for_status response =
     (if is_success response then Inr () else Inl (HTTPStatusError (status_code response)))"

text \<open>\<open>response.json()\<close>\<close>

definition response_json :: "Response \<Rightarrow> exn + json" where
  "response_json response =
     (case body response of None \<Rightarrow> Inl JSONDecodeError | Some v \<Rightarrow> Inr v)"

text \<open>\<open>value[key]\<close> with a string key: only an object can be indexed that way.\<close>

definition subscript :: "json \<Rightarrow> string \<Rightarrow> exn + json" where
  "subscript v key =
     (case v of
        JObject members \<Rightarrow>
          (case map_of members key of None \<Rightarrow> Inl (KeyError key) | Some x \<Rightarrow> Inr x)
      | _ \<Rightarrow> Inl TypeError)"

text \<open>
  \<open>for item in value\<close>: a list gives its elements, an object its keys, a string its
  characters; nothing else can be iterated.
\<close>

definition iterate :: "json \<Rightarrow> exn + json list" where
  "iterate v =
     (case v of
        JArray items \<Rightarrow> Inr items
      | JObject members \<Rightarrow> Inr (map (\<lambda>(k, _). JString k) members)
      | JString s \<Rightarrow> Inr (map (\<lambda>c. JString [c]) s)
      | _ \<Rightarrow> Inl TypeError)"

text \<open>\<open>response.headers[name]\<close>\<close>

definition header :: "Response \<Rightarrow> string \<Rightarrow> exn + string" where
  "header response name =
     (case headers response name of None \<Rightarrow> Inl (KeyError name) | Some v \<Rightarrow> Inr v)"

subsection \<open>Numbers and text\<close>

text \<open>
  A character of a text is a code point below 256. \<open>int(text)\<close> on such a text:
  surrounding white space is dropped (the characters Python counts as white space there:
  tab to carriage return, the separators U+001C to U+001F, the space, U+0085 and U+00A0),
  a sign may lead, single underscores may separate the digits \<open>0\<close> to \<open>9\<close>; anything
  else is a \<open>ValueError\<close>.
\<close>

definition is_space :: "char \<Rightarrow> bool" where
  "is_space c =
     (let n = (of_char c :: nat)
      in (9 \<le> n \<and> n \<le> 13) \<or> (28 \<le> n \<and> n \<le> 32) \<or> n = 133 \<or> n = 160)"

definition strip :: "string \<Rightarrow> string" where
  "strip s = rev (dropWhile is_space (rev (dropWhile is_space s)))"

definition is_digit :: "char \<Rightarrow> bool" where
  "is_digit c = ((48::nat) \<le> of_char c \<and> (of_char c :: nat) \<le> 57)"

definition digit_value :: "char \<Rightarrow> nat" where
  "digit_value c = of_char c - 48"

fun digits_loop :: "nat \<Rightarrow> string \<Rightarrow> nat option" where
  "digits_loop acc [] = Some acc"
| "digits_loop acc [c] = (if is_digit c then Some (10 * acc + digit_value c) else None)"
| "digits_loop acc (c # d # rest) =
     (if is_digit c then digits_loop (10 * acc + digit_value c) (d # rest)
      else if c = CHR ''_'' \<and> is_digit d then digits_loop (10 * acc + digit_value d) rest
      else None)"

definition parse_digits :: "string \<Rightarrow> nat option" where
  "parse_digits s =
     (case s of
        [] \<Rightarrow> None
      | c # rest \<Rightarrow> (if is_digit c then digits_loop (digit_value c) rest else None))"

definition py_int :: "string \<Rightarrow> exn + int" where
  "py_int text =
     (let s = strip text;
          parsed =
            (case s of
               [] \<Rightarrow> None
             | c # rest \<Rightarrow>
                 (if c = CHR ''-'' then map_option (\<lambda>n. - int n) (parse_digits rest)
                  else if c = CHR ''+'' then map_option int (parse_digits rest)
                  else map_option int (parse_digits s)))
      in case parsed of None \<Rightarrow> Inl ValueError | Some i \<Rightarrow> Inr i)"

text \<open>\<open>int(response.headers[name])\<close>\<close>

definition header_int :: "Response \<Rightarrow> string \<Rightarrow> exn + int" where
  "header_int response name =
     (case header response name of Inl e \<Rightarrow> Inl e | Inr text \<Rightarrow> py_int text)"

text \<open>\<open>str(n)\<close> for an integer, as an f-string writes it.\<close>

fun str_nat :: "nat \<Rightarrow> string" where
  "str_nat n =
     (if n < 10 then [''0123456789'' ! n]
      else str_nat (n div 10) @ [''0123456789'' ! (n mod 10)])"

declare str_nat.simps [simp del]

definition str_int :: "int \<Rightarrow> string" where
  "str_int i = (if i < 0 then CHR ''-'' # str_nat (nat (- i)) else str_nat (nat i))"

section \<open>Effects: printed lines, sleeps and the run-wide lists\<close>

text \<open>
  What a function prints or how long it sleeps is recorded as a list of events, in order.
  Durations and differences of instants (\<open>timedelta\<close>) are in microseconds.
\<close>

datatype message =
    RateLimitTerminating int
  | RateLimitSleeping int
  | CouldNotDelete string int json
  | DeletedOldImage string
  | DeleteTimedOut string

datatype event = Print message | Sleep int

text \<open>The three module-level lists of main/main.py, and what has been printed or slept.\<close>

record run_state =
  deleted :: "string list"
  failed :: "string list"
  needs_github_assistance :: "string list"
  events :: "event list"

definition emit :: "run_state \<Rightarrow> event list \<Rightarrow> run_state" where
  "emit s evs = s\<lparr>events := events s @ evs\<rparr>"

definition GITHUB_ASSISTANCE_MSG :: string where
  "GITHUB_ASSISTANCE_MSG =
     ''Publicly visible package versions with more than '' @
     ''5000 downloads cannot be deleted. '' @
     ''Contact GitHub support for further assistance.''"

definition MAX_SLEEP :: int where
  "MAX_SLEEP = 60 * 10"

definition timedelta_seconds :: "int \<Rightarrow> int" where
  "timedelta_seconds n = n * 1000000"

text \<open>
  \<open>datetime.fromtimestamp(seconds)\<close> and \<open>datetime.now()\<close> give naive datetimes in the
  local time of the machine: readings of the local wall clock, here in microseconds
  counted on that clock from 1970-01-01T00:00:00. The conversion of the platform is a
  parameter, \<open>localtime\<close>: for a number of seconds since the epoch, the seconds the local
  wall clock shows then, or the exception the platform raises when it cannot convert the
  value (\<open>OverflowError\<close>, \<open>OSError\<close>). A datetime has a year from 1 to 9999:
  \<open>fromtimestamp\<close> raises \<open>ValueError\<close> for a wall-clock time before
  0001-01-01T00:00:00 or after 9999-12-31T23:59:59. The difference of two naive datetimes
  is the difference of the two readings, whatever the offset of local time from UTC was
  at each.
\<close>

type_synonym naive_datetime = int

definition fromtimestamp :: "(int \<Rightarrow> exn + int) \<Rightarrow> int \<Rightarrow> exn + naive_datetime" where
  "fromtimestamp localtime seconds =
     (case localtime seconds of
        Inl e \<Rightarrow> Inl e
      | Inr wall_seconds \<Rightarrow>
          (if - 62135596800 \<le> wall_seconds \<and> wall_seconds \<le> 253402300799
           then Inr (wall_seconds * 1000000)
           else Inl ValueError))"

section \<open>The rate limiter (main/utils.py, wait_for_rate_limit)\<close>

text \<open>
  \<open>now\<close> is what \<open>datetime.now()\<close> reads during the call, \<open>localtime\<close> the conversion
  of the platform. The result is what the call prints and sleeps, and how it ends:
  normally, or with an exception (\<open>exit(1)\<close> is \<open>SystemExit 1\<close>).
\<close>

definition wait_for_rate_limit ::
    "Response \<Rightarrow> bool \<Rightarrow> (int \<Rightarrow> exn + int) \<Rightarrow> naive_datetime \<Rightarrow> event list \<times> (exn + unit)" where
  "wait_for_rate_limit response eligible_for_secondary_limit localtime now =
     (case header_int response ''x-ratelimit-remaining'' of
        Inl e \<Rightarrow> ([], Inl e)
      | Inr remaining \<Rightarrow>
          (if remaining = 0 then
             (case header_int response ''x-ratelimit-reset'' of
                Inl e \<Rightarrow> ([], Inl e)
              | Inr reset \<Rightarrow>
                  (case fromtimestamp localtime reset of
                     Inl e \<Rightarrow> ([], Inl e)
                   | Inr ratelimit_reset \<Rightarrow>
                       (let delta = ratelimit_reset - now
                        in if delta > timedelta_seconds MAX_SLEEP
                             then ([Print (RateLimitTerminating delta)], Inl (SystemExit 1))
                           else if delta > timedelta_seconds 0
                             then ([Print (RateLimitSleeping delta), Sleep delta], Inr ())
                           else ([], Inr ()))))
           else if eligible_for_secondary_limit then ([Sleep (timedelta_seconds 1)], Inr ())
           else ([], Inr ())))"

section \<open>Outcome classification (main/utils.py, post_deletion_output)\<close>

text \<open>\<open>response.json()['message']\<close>\<close>

definition json_message :: "Response \<Rightarrow> exn + json" where
  "json_message response =
     (case response_json response of Inl e \<Rightarrow> Inl e | Inr v \<Rightarrow> subscript v ''message'')"

text \<open>
  The test \<open>response.status_code == 400 and response.json()['message'] == GITHUB_ASSISTANCE_MSG\<close>:
  the body is only read when the status is 400, and reading it can raise.
\<close>

definition is_assistance_response :: "Response \<Rightarrow> exn + bool" where
  "is_assistance_response response =
     (if status_code response = 400 then
        (case json_message response of
           Inl e \<Rightarrow> Inl e
         | Inr m \<Rightarrow> Inr (m = JString GITHUB_ASSISTANCE_MSG))
      else Inr False)"

definition post_deletion_output :: "Response \<Rightarrow> string \<Rightarrow> int \<Rightarrow> run_state \<Rightarrow> run_state \<times> (exn + unit)" where
  "post_deletion_output response image_name version_id s =
     (let image_name_with_tag = image_name @ '':'' @ str_int version_id
      in if is_error response then
           (case is_assistance_response response of
              Inl e \<Rightarrow> (s, Inl e)
            | Inr True \<Rightarrow>
                (s\<lparr>needs_github_assistance := needs_github_assistance s @ [image_name_with_tag]\<rparr>,
                 Inr ())
            | Inr False \<Rightarrow>
                (let s1 = s\<lparr>failed := failed s @ [image_name_with_tag]\<rparr>
                 in case response_json response of
                      Inl e \<Rightarrow> (s1, Inl e)
                    | Inr v \<Rightarrow>
                        (emit s1 [Print (CouldNotDelete image_name_with_tag (status_code response) v)],
                         Inr ())))
         else
           (emit (s\<lparr>deleted := deleted s @ [image_name_with_tag]\<rparr>)
              [Print (DeletedOldImage image_name_with_tag)],
            Inr ()))"

section \<open>One delete call (main/api.py, the private delete_package_versions)\<close>

text \<open>
  The body of the \<open>async with semaphore\<close> block: the \<open>try\<close> with its three statements and
  the handler, which catches \<open>TimeoutException\<close> wherever in the block it is raised and
  lets every other exception through. Taking and giving back the permit is in the
  scheduler below.
\<close>

definition except_timeout :: "string \<Rightarrow> exn \<Rightarrow> run_state \<Rightarrow> run_state \<times> (exn + unit)" where
  "except_timeout image_name e s =
     (if e = TimeoutException then (emit s [Print (DeleteTimedOut image_name)], Inr ())
      else (s, Inl e))"

definition private_delete_package_versions ::
    "string \<Rightarrow> AsyncClient \<Rightarrow> string \<Rightarrow> int \<Rightarrow> (int \<Rightarrow> exn + int) \<Rightarrow> naive_datetime
      \<Rightarrow> run_state \<Rightarrow> run_state \<times> (exn + unit)" where
  "private_delete_package_versions url http_client image_name version_id localtime now s =
     (case http_delete http_client url of
        Raised e \<Rightarrow> except_timeout image_name e s
      | Responded response \<Rightarrow>
          (case wait_for_rate_limit response True localtime now of
             (evs, Inl e) \<Rightarrow> except_timeout image_name e (emit s evs)
           | (evs, Inr _) \<Rightarrow>
               (case post_deletion_output response image_name version_id (emit s evs) of
                  (s2, Inl e) \<Rightarrow> except_timeout image_name e s2
                | (s2, Inr _) \<Rightarrow> (s2, Inr ()))))"

section \<open>The paginator (main/utils.py, get_all_pages)\<close>

text \<open>
  The regular expression \<open><([^<>]*)>; rel="(\w+)"\<close> tried at the start of a text: the two
  groups and the number of characters matched. After \<open><\<close> the first group is the longest
  run without \<open><\<close> or \<open>>\<close>, the second the longest run of word characters (among the
  code points below 256: the underscore and what Python counts as alphanumeric, that is
  the ASCII letters and digits, the letters from U+00C0 to U+00FF, U+00AA, U+00B5, U+00BA,
  the superscript digits and the three fractions); no shorter run can be followed by what
  the expression asks for next, so there is nothing to backtrack.
\<close>

definition is_word_char :: "char \<Rightarrow> bool" where
  "is_word_char c =
     (let n = (of_char c :: nat)
      in (48 \<le> n \<and> n \<le> 57) \<or> (65 \<le> n \<and> n \<le> 90) \<or> n = 95 \<or> (97 \<le> n \<and> n \<le> 122) \<or>
         n = 170 \<or> n = 178 \<or> n = 179 \<or> n = 181 \<or> n = 185 \<or> n = 186 \<or>
         (188 \<le> n \<and> n \<le> 190) \<or> (192 \<le> n \<and> n \<le> 214) \<or> (216 \<le> n \<and> n \<le> 246) \<or>
         (248 \<le> n \<and> n \<le> 255))"

definition match_rel :: "string \<Rightarrow> ((string \<times> string) \<times> nat) option" where
  "match_rel text =
     (case text of
        [] \<Rightarrow> None
      | c # s1 \<Rightarrow>
          (if c \<noteq> CHR ''<'' then None
           else
             (let url = takeWhile (\<lambda>d. d \<noteq> CHR ''<'' \<and> d \<noteq> CHR ''>'') s1;
                  s2 = drop (length url) s1
              in if take 8 s2 \<noteq> ''>; rel='' @ [CHR 0x22] then None
                 else
                   (let s3 = drop 8 s2;
                        rel = takeWhile is_word_char s3;
                        s4 = drop (length rel) s3
                    in if rel = [] then None
                       else
                         (case s4 of
                            [] \<Rightarrow> None
                          | q # _ \<Rightarrow>
                              (if q = CHR 0x22
                               then Some ((url, rel), length url + length rel + 10)
                               else None))))))"

text \<open>
  \<open>rel_regex.findall(text)\<close>: the matches from left to right, none overlapping; \<open>skip\<close>
  counts the characters still covered by the match found last.
\<close>

fun findall_from :: "nat \<Rightarrow> string \<Rightarrow> (string \<times> string) list" where
  "findall_from skip [] = []"
| "findall_from skip (c # text) =
     (if 0 < skip then findall_from (skip - 1) text
      else
        (case match_rel (c # text) of
           None \<Rightarrow> findall_from 0 text
         | Some (groups, n) \<Rightarrow> groups # findall_from (n - 1) text))"

definition findall :: "string \<Rightarrow> (string \<times> string) list" where
  "findall text = findall_from 0 text"

text \<open>\<open>{rel: url for url, rel in rel_regex.findall(link)}\<close>: a later pair replaces an earlier one.\<close>

definition parse_rels :: "string \<Rightarrow> (string \<rightharpoonup> string)" where
  "parse_rels link = foldl (\<lambda>rels (url, rel). rels(rel \<mapsto> url)) Map.empty (findall link)"

text \<open>\<open>for item in response.json()\<close>: the items one page yields.\<close>

definition response_items :: "Response \<Rightarrow> exn + json list" where
  "response_items response =
     (case response_json response of Inl e \<Rightarrow> Inl e | Inr v \<Rightarrow> iterate v)"

text \<open>
  The \<open>while 'next' in rels\<close> loop, run until the generator ends. The result is what the
  consumer has been given (the items yielded, in order), what has been printed or slept,
  and how the generator ended: normally, or by raising. \<open>clock n\<close> is what
  \<open>datetime.now()\<close> reads in the rate-limit check after page \<open>n\<close>. A chain of pages may go
  on for ever, so the loop takes fuel: one unit per test of the loop condition, and
  \<open>None\<close> when it runs out.
\<close>

fun pages_loop ::
    "nat \<Rightarrow> AsyncClient \<Rightarrow> (int \<Rightarrow> exn + int) \<Rightarrow> (nat \<Rightarrow> naive_datetime) \<Rightarrow> nat \<Rightarrow> (string \<rightharpoonup> string)
      \<Rightarrow> json list \<Rightarrow> event list
      \<Rightarrow> (json list \<times> event list \<times> (exn + unit)) option" where
  "pages_loop 0 http_client localtime clock n rels yielded evs = None"
| "pages_loop (Suc fuel) http_client localtime clock n rels yielded evs =
     (case rels ''next'' of
        None \<Rightarrow> Some (yielded, evs, Inr ())
      | Some next_url \<Rightarrow>
          (case http_get http_client next_url of
             Raised e \<Rightarrow> Some (yielded, evs, Inl e)
           | Responded response \<Rightarrow>
               (case raise_for_status response of
                  Inl e \<Rightarrow> Some (yielded, evs, Inl e)
                | Inr _ \<Rightarrow>
                    (case response_items response of
                       Inl e \<Rightarrow> Some (yielded, evs, Inl e)
                     | Inr page_items \<Rightarrow>
                         (case header response ''link'' of
                            Inl e \<Rightarrow> Some (yielded @ page_items, evs, Inl e)
                          | Inr link \<Rightarrow>
                              (case wait_for_rate_limit response False localtime (clock n) of
                                 (evs1, Inl e) \<Rightarrow> Some (yielded @ page_items, evs @ evs1, Inl e)
                               | (evs1, Inr _) \<Rightarrow>
                                   pages_loop fuel http_client localtime clock (Suc n) (parse_rels link)
                                     (yielded @ page_items) (evs @ evs1)))))))"

definition get_all_pages ::
    "nat \<Rightarrow> string \<Rightarrow> AsyncClient \<Rightarrow> (int \<Rightarrow> exn + int) \<Rightarrow> (nat \<Rightarrow> naive_datetime)
      \<Rightarrow> (json list \<times> event list \<times> (exn + unit)) option" where
  "get_all_pages fuel url http_client localtime clock =
     pages_loop fuel http_client localtime clock 0 [''next'' \<mapsto> url] [] []"

text \<open>
  A page the loop gets past: the request answers with a successful status, the body can
  be iterated, there is a link header, and the rate limiter returns.
\<close>

definition page_passes :: "(int \<Rightarrow> exn + int) \<Rightarrow> Response \<Rightarrow> naive_datetime \<Rightarrow> bool" where
  "page_passes localtime response now =
     (is_success response \<and> \<not> isl (response_items response) \<and> headers response ''link'' \<noteq> None
      \<and> \<not> isl (snd (wait_for_rate_limit response False localtime now)))"

definition items_of :: "Response \<Rightarrow> json list" where
  "items_of response = (case response_items response of Inl _ \<Rightarrow> [] | Inr page_items \<Rightarrow> page_items)"

text \<open>
  Following the next links from \<open>rels\<close> through the given pages, each of which the loop
  gets past: the link relations of the last one, or \<open>None\<close> when the pages are not what
  the client answers along the chain.
\<close>

fun chain_end ::
    "AsyncClient \<Rightarrow> (int \<Rightarrow> exn + int) \<Rightarrow> (nat \<Rightarrow> naive_datetime) \<Rightarrow> nat \<Rightarrow> (string \<rightharpoonup> string)
      \<Rightarrow> Response list
      \<Rightarrow> (string \<rightharpoonup> string) option" where
  "chain_end http_client localtime clock n rels [] = Some rels"
| "chain_end http_client localtime clock n rels (page # pages) =
     (case rels ''next'' of
        None \<Rightarrow> None
      | Some next_url \<Rightarrow>
          (if http_get http_client next_url = Responded page \<and> page_passes localtime page (clock n)
           then chain_end http_client localtime clock (Suc n)
                  (parse_rels (case headers page ''link'' of None \<Rightarrow> [] | Some link \<Rightarrow> link)) pages
           else None))"

section \<open>The deletion scheduler: delete calls sharing the semaphore\<close>

text \<open>
  \<open>asyncio.Semaphore\<close> is a counter. \<open>acquire\<close> takes one from a positive counter; at
  zero the caller has to wait (\<open>None\<close>) until a \<open>release\<close> has made the counter
  positive again. \<open>release\<close> adds one.
\<close>

definition acquire :: "nat \<Rightarrow> nat option" where
  "acquire counter = (if 0 < counter then Some (counter - 1) else None)"

definition release :: "nat \<Rightarrow> nat" where
  "release counter = counter + 1"

text \<open>\<open>semaphore = Semaphore(50)\<close> in \<open>main\<close>: the one semaphore of the run and its first value.\<close>

definition main_semaphore :: nat where
  "main_semaphore = 50"

text \<open>
  \<open>main\<close> hands that semaphore to every delete call, and each call runs
  \<open>async with semaphore: try: response = await http_client.delete(url) ...\<close>. The tasks
  run interleaved on one event loop, which is modelled by a step relation on the state of
  the run: the counter of the semaphore, where each call stands, the run-wide lists, and
  whether \<open>exit\<close> has ended the process. A call is \<open>Pending\<close> until it has entered the
  \<open>async with\<close> block. Entering is \<open>acquire\<close>, and the request is issued in the same
  turn of the event loop (nothing suspends the task between the two), so from then on the
  call is \<open>InFlight\<close>: it holds a permit and its request is under way, or its rate-limit
  wait. When the body of the block has ended, with whatever result
  \<open>private_delete_package_versions\<close> gives (a classified response, a swallowed timeout,
  any exception), the block is left, which is \<open>release\<close>, and the call is \<open>Finished\<close>.
\<close>

datatype task_status = Pending | InFlight | Finished

record delete_call =
  call_url :: string
  call_image_name :: string
  call_version_id :: int

record scheduler =
  semaphore_value :: nat
  statuses :: "task_status list"
  outcomes :: run_state
  exited :: bool

definition initial :: "nat \<Rightarrow> scheduler" where
  "initial n =
     \<lparr>semaphore_value = main_semaphore,
      statuses = replicate n Pending,
      outcomes = \<lparr>deleted = [], failed = [], needs_github_assistance = [], events = []\<rparr>,
      exited = False\<rparr>"


definition ends_process :: "exn + unit \<Rightarrow> bool" where
  "ends_process result = (case result of Inl (SystemExit _) \<Rightarrow> True | _ \<Rightarrow> False)"

inductive step ::
    "AsyncClient \<Rightarrow> (int \<Rightarrow> exn + int) \<Rightarrow> delete_call list \<Rightarrow> scheduler \<Rightarrow> scheduler \<Rightarrow> bool"
  for http_client :: AsyncClient and localtime :: "int \<Rightarrow> exn + int"
    and calls :: "delete_call list" where
  enter:
    "\<lbrakk>\<not> exited sch; i < length (statuses sch); statuses sch ! i = Pending;
      acquire (semaphore_value sch) = Some counter\<rbrakk>
     \<Longrightarrow> step http_client localtime calls sch
           (sch\<lparr>semaphore_value := counter, statuses := (statuses sch)[i := InFlight]\<rparr>)"
| leave:
    "\<lbrakk>\<not> exited sch; i < length (statuses sch); i < length calls; statuses sch ! i = InFlight;
      private_delete_package_versions (call_url (calls ! i)) http_client
          (call_image_name (calls ! i)) (call_version_id (calls ! i)) localtime now (outcomes sch)
        = (s', result)\<rbrakk>
     \<Longrightarrow> step http_client localtime calls sch
           (sch\<lparr>semaphore_value := release (semaphore_value sch),
                statuses := (statuses sch)[i := Finished],
                outcomes := s',
                exited := ends_process result\<rparr>)"

inductive reachable ::
    "AsyncClient \<Rightarrow> (int \<Rightarrow> exn + int) \<Rightarrow> delete_call list \<Rightarrow> scheduler \<Rightarrow> bool"
  for http_client :: AsyncClient and localtime :: "int \<Rightarrow> exn + int"
    and calls :: "delete_call list" where
  reachable_start: "reachable http_client localtime calls (initial (length calls))"
| reachable_step:
    "\<lbrakk>reachable http_client localtime calls sch; step http_client localtime calls sch sch'\<rbrakk>
     \<Longrightarrow> reachable http_client localtime calls sch'"


section \<open>Example responses\<close>

text \<open>One link of a link header, \<open><url>; rel="name"\<close>.\<close>

definition link_value :: "string \<Rightarrow> string \<Rightarrow> string" where
  "link_value url rel = ''<'' @ url @ ''>; rel='' @ [CHR 0x22] @ rel @ [CHR 0x22]"

text \<open>A successful page with the given items, link header and rate-limit headers.\<close>

definition page :: "json list \<Rightarrow> string \<Rightarrow> string \<Rightarrow> string \<Rightarrow> Response" where
  "page page_items link remaining reset =
     \<lparr>status_code = 200,
      headers = [''link'' \<mapsto> link, ''x-ratelimit-remaining'' \<mapsto> remaining,
                 ''x-ratelimit-reset'' \<mapsto> reset],
      body = Some (JArray page_items)\<rparr>"

text \<open>A machine whose local time is UTC.\<close>

definition utc :: "int \<Rightarrow> exn + int" where
  "utc seconds = Inr seconds"

text \<open>A client that answers two URLs and refuses every other request.\<close>

definition two_urls :: "string \<Rightarrow> Response \<Rightarrow> string \<Rightarrow> Response \<Rightarrow> AsyncClient" where
  "two_urls url1 response1 url2 response2 =
     \<lparr>http_get = (\<lambda>url. if url = url1 then Responded response1
                        else if url = url2 then Responded response2
                        else Raised TransportError),
      http_delete = (\<lambda>url. Raised TransportError)\<rparr>"

section \<open>Properties of the retention filter\<close>




lemma state_after_Suc:
  "k < length versions \<Longrightarrow>
   state_after image_name inputs versions (Suc k) =
     loop_body image_name inputs (state_after image_name inputs versions k) (versions ! k)"
  by (simp add: state_after_def take_Suc_conv_app_nth)

lemma state_after_all:
  "select_package_versions_to_delete image_name inputs versions =
     tasks (state_after image_name inputs versions (length versions))"
  by (simp add: state_after_def select_package_versions_to_delete_def)

lemma loop_body_recent:
  "timestamp_of (timestamp_to_use inputs) version = Some t \<Longrightarrow> cut_off inputs < t \<Longrightarrow>
   loop_body image_name inputs s version = s"
  by (simp add: loop_body_def)




text \<open>
  C1. Claim: with \<open>keep_at_least = N > 0\<close> the filter never selects any of the first \<open>N\<close>
  classifiable versions of the listing. The code does the opposite: the guard
  \<open>0 < keep_at_least == index\<close> is false while \<open>index < N\<close>, so the first versions go
  through the whole evaluation, and once \<open>index\<close> has reached \<open>N\<close> every later version is
  skipped. Here, with \<open>keep_at_least = 1\<close> and two old tagged versions, the first version
  of the listing is the one scheduled for deletion and the second is the one kept.
\<close>

theorem keep_at_least_deletes_first_version:
  "select_package_versions_to_delete ''app-a''
     \<lparr>image_names = [''app-a''], cut_off = 100, timestamp_to_use = CREATED_AT,
      account_type = PERSONAL, org_name = None, untagged_only = False, skip_tags = [],
      keep_at_least = 1, filter_tags = [], filter_include_untagged = True\<rparr>
     [\<lparr>id_v = 1, name_v = ''sha256:aa'', metadata = \<lparr>container = \<lparr>tags = [''latest'']\<rparr>\<rparr>,
       created_at = Some 50, updated_at = Some 50\<rparr>,
      \<lparr>id_v = 2, name_v = ''sha256:bb'', metadata = \<lparr>container = \<lparr>tags = [''v1'']\<rparr>\<rparr>,
       created_at = Some 40, updated_at = Some 40\<rparr>]
   = [delete_package PERSONAL None ''app-a'' 1]"
  by (simp add: select_package_versions_to_delete_def loop_body_def timestamp_of_def)

text \<open>
  C2. Claim: three versions older than the cut-off (all with a timestamp, all tagged, no
  tag filter) and \<open>keep_at_least = 1\<close> give exactly two deletions. The code schedules
  exactly one: the first version is evaluated and scheduled, which brings \<open>index\<close> to 1,
  and the guard then skips the other two.
\<close>

theorem three_old_versions_keep_one:
  "length (select_package_versions_to_delete ''app-a''
     \<lparr>image_names = [''app-*''], cut_off = 100, timestamp_to_use = CREATED_AT,
      account_type = PERSONAL, org_name = None, untagged_only = False, skip_tags = [],
      keep_at_least = 1, filter_tags = [], filter_include_untagged = True\<rparr>
     [\<lparr>id_v = 1, name_v = ''sha256:aa'', metadata = \<lparr>container = \<lparr>tags = [''v3'']\<rparr>\<rparr>,
       created_at = Some 50, updated_at = Some 50\<rparr>,
      \<lparr>id_v = 2, name_v = ''sha256:bb'', metadata = \<lparr>container = \<lparr>tags = [''v2'']\<rparr>\<rparr>,
       created_at = Some 40, updated_at = Some 40\<rparr>,
      \<lparr>id_v = 3, name_v = ''sha256:cc'', metadata = \<lparr>container = \<lparr>tags = [''v1'']\<rparr>\<rparr>,
       created_at = Some 30, updated_at = Some 30\<rparr>]) = 1"
  by (simp add: select_package_versions_to_delete_def loop_body_def timestamp_of_def)

text \<open>
  C3. A version whose configured timestamp is present and strictly greater than the
  cut-off is never selected: the pass of the loop that processes it (the version at
  position \<open>k\<close> of the listing) schedules nothing, whatever came before it.
\<close>

theorem recent_version_never_selected:
  assumes "k < length versions"
    and "timestamp_of (timestamp_to_use inputs) (versions ! k) = Some t"
    and "cut_off inputs < t"
  shows "tasks (state_after image_name inputs versions (Suc k)) =
         tasks (state_after image_name inputs versions k)"
  using assms by (simp add: state_after_Suc loop_body_recent)

theorem recent_version_never_selected_witness:
  "(1::nat) < length
      [\<lparr>id_v = 1, name_v = ''sha256:aa'', metadata = \<lparr>container = \<lparr>tags = [''old'']\<rparr>\<rparr>,
        created_at = Some 50, updated_at = Some 50\<rparr>,
       \<lparr>id_v = 2, name_v = ''sha256:bb'', metadata = \<lparr>container = \<lparr>tags = [''new'']\<rparr>\<rparr>,
        created_at = Some 40, updated_at = Some 101\<rparr>] \<and>
   timestamp_of UPDATED_AT
       \<lparr>id_v = 2, name_v = ''sha256:bb'', metadata = \<lparr>container = \<lparr>tags = [''new'']\<rparr>\<rparr>,
        created_at = Some 40, updated_at = Some 101\<rparr> = Some 101 \<and>
   (100::int) < 101 \<and>
   tasks (state_after ''app-a''
      \<lparr>image_names = [''app-a''], cut_off = 100, timestamp_to_use = UPDATED_AT,
       account_type = PERSONAL, org_name = None, untagged_only = False, skip_tags = [],
       keep_at_least = 0, filter_tags = [], filter_include_untagged = True\<rparr>
      [\<lparr>id_v = 1, name_v = ''sha256:aa'', metadata = \<lparr>container = \<lparr>tags = [''old'']\<rparr>\<rparr>,
        created_at = Some 50, updated_at = Some 50\<rparr>,
       \<lparr>id_v = 2, name_v = ''sha256:bb'', metadata = \<lparr>container = \<lparr>tags = [''new'']\<rparr>\<rparr>,
        created_at = Some 40, updated_at = Some 101\<rparr>] 2)
     = [delete_package PERSONAL None ''app-a'' 1]"
  using recent_version_never_selected [of 1
      "[\<lparr>id_v = 1, name_v = ''sha256:aa'', metadata = \<lparr>container = \<lparr>tags = [''old'']\<rparr>\<rparr>,
        created_at = Some 50, updated_at = Some 50\<rparr>,
       \<lparr>id_v = 2, name_v = ''sha256:bb'', metadata = \<lparr>container = \<lparr>tags = [''new'']\<rparr>\<rparr>,
        created_at = Some 40, updated_at = Some 101\<rparr>]"
      "\<lparr>image_names = [''app-a''], cut_off = 100, timestamp_to_use = UPDATED_AT,
       account_type = PERSONAL, org_name = None, untagged_only = False, skip_tags = [],
       keep_at_least = 0, filter_tags = [], filter_include_untagged = True\<rparr>"
      101 "''app-a''"]
  by (simp add: state_after_def loop_body_def timestamp_of_def)





section \<open>Properties of the rate limiter\<close>

lemmas parse_defs = py_int_def strip_def is_space_def parse_digits_def is_digit_def digit_value_def
  header_int_def header_def



section \<open>Properties of the outcome classification\<close>

text \<open>
  A response with status 400 whose body is a JSON object without a \<open>message\<close> member:
  \<open>response.json()['message']\<close> raises \<open>KeyError\<close> before any list is touched, so the
  identifier reaches none of the three lists (the same happens when the body is not JSON
  or not an object).
\<close>

theorem status_400_without_message_counterexample:
  "post_deletion_output \<lparr>status_code = 400, headers = Map.empty, body = Some (JObject [])\<rparr>
      ''app-a'' 7
      \<lparr>deleted = [], failed = [], needs_github_assistance = [], events = []\<rparr>
   = (\<lparr>deleted = [], failed = [], needs_github_assistance = [], events = []\<rparr>,
      Inl (KeyError ''message''))"
  by (simp add: post_deletion_output_def is_error_def is_assistance_response_def json_message_def
      response_json_def subscript_def)

text \<open>
  C6, as the code has it. For every delete response that is not an error, or whose status
  is not 400, or whose body is a JSON object with a \<open>message\<close> member \<open>m\<close>, the
  identifier \<open>image_name:version_id\<close> is appended to exactly one of the three lists and
  the other two are unchanged: to \<open>deleted\<close> when the response is not an error, to
  \<open>needs_github_assistance\<close> when the status is 400 and the message is the documented
  one, to \<open>failed\<close> for every other error response.
\<close>

theorem post_deletion_output_classification:
  assumes "is_error response \<and> status_code response = 400 \<longrightarrow> json_message response = Inr m"
  shows "(let s' = fst (post_deletion_output response image_name version_id s);
              identifier = image_name @ '':'' @ str_int version_id
          in (deleted s', needs_github_assistance s', failed s') =
             (if \<not> is_error response
                then (deleted s @ [identifier], needs_github_assistance s, failed s)
              else if status_code response = 400 \<and> m = JString GITHUB_ASSISTANCE_MSG
                then (deleted s, needs_github_assistance s @ [identifier], failed s)
              else (deleted s, needs_github_assistance s, failed s @ [identifier])))"
  using assms
  by (auto simp add: post_deletion_output_def Let_def is_assistance_response_def emit_def
      split: sum.splits bool.splits)

text \<open>
  A 400 with the documented message, a 403 and a 204, each classifying \<open>app-a:7\<close>.
\<close>

theorem post_deletion_output_classification_witness:
  "json_message \<lparr>status_code = 400, headers = Map.empty,
       body = Some (JObject [(''message'', JString GITHUB_ASSISTANCE_MSG)])\<rparr>
     = Inr (JString GITHUB_ASSISTANCE_MSG) \<and>
   needs_github_assistance (fst (post_deletion_output
       \<lparr>status_code = 400, headers = Map.empty,
        body = Some (JObject [(''message'', JString GITHUB_ASSISTANCE_MSG)])\<rparr>
       ''app-a'' 7
       \<lparr>deleted = [], failed = [], needs_github_assistance = [], events = []\<rparr>))
     = [''app-a:7''] \<and>
   failed (fst (post_deletion_output
       \<lparr>status_code = 403, headers = Map.empty,
        body = Some (JObject [(''message'', JString ''Forbidden'')])\<rparr>
       ''app-a'' 7
       \<lparr>deleted = [], failed = [], needs_github_assistance = [], events = []\<rparr>))
     = [''app-a:7''] \<and>
   deleted (fst (post_deletion_output
       \<lparr>status_code = 204, headers = Map.empty, body = None\<rparr>
       ''app-a'' 7
       \<lparr>deleted = [], failed = [], needs_github_assistance = [], events = []\<rparr>))
     = [''app-a:7'']"
proof -
  let ?s = "\<lparr>deleted = [], failed = [], needs_github_assistance = [], events = []\<rparr>"
  let ?r400 = "\<lparr>status_code = 400, headers = Map.empty,
       body = Some (JObject [(''message'', JString GITHUB_ASSISTANCE_MSG)])\<rparr>"
  let ?r403 = "\<lparr>status_code = 403, headers = Map.empty,
        body = Some (JObject [(''message'', JString ''Forbidden'')])\<rparr>"
  let ?r204 = "\<lparr>status_code = 204, headers = Map.empty, body = None\<rparr>"
  have m: "json_message ?r400 = Inr (JString GITHUB_ASSISTANCE_MSG)"
    by (simp add: json_message_def response_json_def subscript_def)
  have i: "str_int 7 = ''7''"
    by (simp add: str_int_def str_nat.simps)
  have a: "needs_github_assistance (fst (post_deletion_output ?r400 ''app-a'' 7 ?s)) = [''app-a:7'']"
    using post_deletion_output_classification
      [of ?r400 "JString GITHUB_ASSISTANCE_MSG" "''app-a''" 7 ?s] m i
    by (simp add: Let_def is_error_def)
  have b: "failed (fst (post_deletion_output ?r403 ''app-a'' 7 ?s)) = [''app-a:7'']"
    using post_deletion_output_classification [of ?r403 JNull "''app-a''" 7 ?s] i
    by (simp add: Let_def is_error_def)
  have c: "deleted (fst (post_deletion_output ?r204 ''app-a'' 7 ?s)) = [''app-a:7'']"
    using post_deletion_output_classification [of ?r204 JNull "''app-a''" 7 ?s] i
    by (simp add: Let_def is_error_def)
  from m a b c show ?thesis by simp
qed

section \<open>Properties of one delete call\<close>

text \<open>
  C7. When the delete request raises \<open>TimeoutException\<close>, the call prints the warning
  and returns normally: the result is not an exception, and the state differs from the
  one before only by the printed line, so \<open>deleted\<close>, \<open>failed\<close> and
  \<open>needs_github_assistance\<close> are what they were; the version is not recorded as failed.
\<close>

theorem timeout_is_swallowed:
  assumes "http_delete http_client url = Raised TimeoutException"
  shows "private_delete_package_versions url http_client image_name version_id localtime now s =
           (s\<lparr>events := events s @ [Print (DeleteTimedOut image_name)]\<rparr>, Inr ())"
  using assms
  by (simp add: private_delete_package_versions_def except_timeout_def emit_def)

theorem timeout_is_swallowed_witness:
  "http_delete \<lparr>http_get = (\<lambda>url. Raised TransportError),
                 http_delete = (\<lambda>url. Raised TimeoutException)\<rparr>
       ''https://api.github.com/user/packages/container/app-a/versions/7''
     = Raised TimeoutException \<and>
   private_delete_package_versions
       ''https://api.github.com/user/packages/container/app-a/versions/7''
       \<lparr>http_get = (\<lambda>url. Raised TransportError),
        http_delete = (\<lambda>url. Raised TimeoutException)\<rparr>
       ''app-a'' 7 utc 1000000000
       \<lparr>deleted = [''app-a:5''], failed = [''app-a:6''], needs_github_assistance = [],
        events = []\<rparr>
     = (\<lparr>deleted = [''app-a:5''], failed = [''app-a:6''], needs_github_assistance = [],
         events = [Print (DeleteTimedOut ''app-a'')]\<rparr>, Inr ())"
  using timeout_is_swallowed
    [of "\<lparr>http_get = (\<lambda>url. Raised TransportError),
         http_delete = (\<lambda>url. Raised TimeoutException)\<rparr>"
      "''https://api.github.com/user/packages/container/app-a/versions/7''"
      "''app-a''" 7 utc 1000000000
      "\<lparr>deleted = [''app-a:5''], failed = [''app-a:6''], needs_github_assistance = [],
        events = []\<rparr>"]
  by simp

section \<open>Properties of the paginator\<close>

lemmas link_defs = link_value_def parse_rels_def findall_def match_rel_def is_word_char_def

lemma rels_next: "parse_rels (link_value ''u2'' ''next'') = [''next'' \<mapsto> ''u2'']"
  by (simp add: link_defs)

lemma rels_prev: "parse_rels (link_value ''u1'' ''prev'') = [''prev'' \<mapsto> ''u1'']"
  by (simp add: link_defs)

text \<open>
  Running the loop along a chain of pages it gets past: the fuel the pages use is spent,
  their items have been yielded in page order, and the loop stands at the link relations
  of the last page.
\<close>

lemma pages_loop_chain:
  "chain_end http_client localtime clock n rels pages = Some rels_end \<Longrightarrow>
   \<exists>evs'. pages_loop (length pages + fuel) http_client localtime clock n rels yielded evs =
          pages_loop fuel http_client localtime clock (n + length pages) rels_end
            (yielded @ concat (map items_of pages)) (evs @ evs')"
proof (induction pages arbitrary: n rels yielded evs)
  case Nil
  then show ?case by (intro exI [of _ "[]"]) simp
next
  case (Cons page pages)
  from Cons.prems obtain next_url where nx: "rels ''next'' = Some next_url"
    by (auto split: option.splits)
  from Cons.prems nx have got: "http_get http_client next_url = Responded page"
    and pass: "page_passes localtime page (clock n)"
    and rest: "chain_end http_client localtime clock (Suc n)
                 (parse_rels (case headers page ''link'' of None \<Rightarrow> [] | Some link \<Rightarrow> link)) pages
               = Some rels_end"
    by (auto split: if_splits)
  from pass obtain page_items link evs1 where
        ok: "is_success page"
    and it: "response_items page = Inr page_items"
    and lk: "headers page ''link'' = Some link"
    and rl: "wait_for_rate_limit page False localtime (clock n) = (evs1, Inr ())"
    unfolding page_passes_def
    by (cases "response_items page"; cases "wait_for_rate_limit page False localtime (clock n)";
        cases "snd (wait_for_rate_limit page False localtime (clock n))"; auto)
  have step: "pages_loop (Suc (length pages + fuel)) http_client localtime clock n rels yielded evs =
      pages_loop (length pages + fuel) http_client localtime clock (Suc n) (parse_rels link)
        (yielded @ page_items) (evs @ evs1)"
    using nx got ok it lk rl by (simp add: raise_for_status_def header_def)
  from rest lk have rest': "chain_end http_client localtime clock (Suc n) (parse_rels link) pages = Some rels_end"
    by simp
  obtain evs' where
    "pages_loop (length pages + fuel) http_client localtime clock (Suc n) (parse_rels link)
        (yielded @ page_items) (evs @ evs1) =
      pages_loop fuel http_client localtime clock (Suc n + length pages) rels_end
        ((yielded @ page_items) @ concat (map items_of pages)) ((evs @ evs1) @ evs')"
    using Cons.IH [OF rest'] by blast
  moreover have "items_of page = page_items"
    using it by (simp add: items_of_def)
  ultimately show ?case
    using step by (intro exI [of _ "evs1 @ evs'"]) (simp del: pages_loop.simps)
qed

text \<open>
  The first page is fine and names a next page, but its rate-limit headers say that
  nothing remains and that the reset is 700 s away: the rate limiter ends the process
  after the first page's items, and the items of the second page, which the next link
  reaches, are never yielded.
\<close>

theorem rate_limit_abort_counterexample:
  "get_all_pages 5 ''u1''
     (two_urls
        ''u1'' (page [JObject [(''id'', JNumber 1)]] (link_value ''u2'' ''next'') ''0'' ''1700'')
        ''u2'' (page [JObject [(''id'', JNumber 2)]] (link_value ''u1'' ''prev'') ''10'' ''1700''))
     utc (\<lambda>n. 1000000000)
   = Some ([JObject [(''id'', JNumber 1)]], [Print (RateLimitTerminating 700000000)],
           Inl (SystemExit 1))"
  by (simp add: get_all_pages_def numeral_eq_Suc two_urls_def page_def raise_for_status_def
      is_success_def response_items_def response_json_def iterate_def wait_for_rate_limit_def
      parse_defs fromtimestamp_def utc_def timedelta_seconds_def MAX_SLEEP_def)

text \<open>
  C8, as the code has it. Take the pages reached from the starting URL by following the
  next links, each of them a page the loop gets past (successful status, a body that can
  be iterated, a link header, and a rate limiter that returns, sleeping or not). If the
  link relations of the last of them have no next, the generator has yielded exactly the
  items of all these pages, in page order, and ends normally, with any fuel above the
  number of pages; the last page may have no items. If instead they name a next URL whose
  request answers with an unsuccessful status, the generator has yielded the items of the
  pages before it and ends by raising the status error to its caller.
\<close>

theorem get_all_pages_follows_next_chain:
  assumes "chain_end http_client localtime clock 0 [''next'' \<mapsto> url] pages = Some rels_end"
    and "length pages < fuel"
  shows "(rels_end ''next'' = None \<longrightarrow>
            (\<exists>evs. get_all_pages fuel url http_client localtime clock =
                     Some (concat (map items_of pages), evs, Inr ())))
       \<and> (\<forall>next_url response.
            rels_end ''next'' = Some next_url \<and>
            http_get http_client next_url = Responded response \<and> \<not> is_success response \<longrightarrow>
            (\<exists>evs. get_all_pages fuel url http_client localtime clock =
                     Some (concat (map items_of pages), evs,
                           Inl (HTTPStatusError (status_code response)))))"
proof -
  from assms(2) obtain fuel' where f: "fuel = length pages + Suc fuel'"
    by (metis less_iff_Suc_add add_Suc_right)
  obtain evs' where run: "get_all_pages fuel url http_client localtime clock =
      pages_loop (Suc fuel') http_client localtime clock (length pages) rels_end
        (concat (map items_of pages)) evs'"
    using pages_loop_chain [OF assms(1), of "Suc fuel'" "[]" "[]"] f
    by (auto simp add: get_all_pages_def)
  show ?thesis
    unfolding run by (auto simp add: raise_for_status_def)
qed

text \<open>
  Two pages, the last one with no items and no next link; and the same first page
  followed by a 502.
\<close>

theorem get_all_pages_follows_next_chain_witness:
  "chain_end
     (two_urls
        ''u1'' (page [JObject [(''id'', JNumber 1)], JObject [(''id'', JNumber 2)]]
                  (link_value ''u2'' ''next'') ''10'' ''1700'')
        ''u2'' (page [] (link_value ''u1'' ''prev'') ''10'' ''1700''))
     utc (\<lambda>n. 1000000000) 0 [''next'' \<mapsto> ''u1'']
     [page [JObject [(''id'', JNumber 1)], JObject [(''id'', JNumber 2)]]
        (link_value ''u2'' ''next'') ''10'' ''1700'',
      page [] (link_value ''u1'' ''prev'') ''10'' ''1700'']
     = Some [''prev'' \<mapsto> ''u1''] \<and>
   get_all_pages 3 ''u1''
     (two_urls
        ''u1'' (page [JObject [(''id'', JNumber 1)], JObject [(''id'', JNumber 2)]]
                  (link_value ''u2'' ''next'') ''10'' ''1700'')
        ''u2'' (page [] (link_value ''u1'' ''prev'') ''10'' ''1700''))
     utc (\<lambda>n. 1000000000)
     = Some ([JObject [(''id'', JNumber 1)], JObject [(''id'', JNumber 2)]], [], Inr ()) \<and>
   chain_end
     (two_urls
        ''u1'' (page [JObject [(''id'', JNumber 1)], JObject [(''id'', JNumber 2)]]
                  (link_value ''u2'' ''next'') ''10'' ''1700'')
        ''u2'' \<lparr>status_code = 502, headers = Map.empty, body = None\<rparr>)
     utc (\<lambda>n. 1000000000) 0 [''next'' \<mapsto> ''u1'']
     [page [JObject [(''id'', JNumber 1)], JObject [(''id'', JNumber 2)]]
        (link_value ''u2'' ''next'') ''10'' ''1700'']
     = Some [''next'' \<mapsto> ''u2''] \<and>
   get_all_pages 3 ''u1''
     (two_urls
        ''u1'' (page [JObject [(''id'', JNumber 1)], JObject [(''id'', JNumber 2)]]
                  (link_value ''u2'' ''next'') ''10'' ''1700'')
        ''u2'' \<lparr>status_code = 502, headers = Map.empty, body = None\<rparr>)
     utc (\<lambda>n. 1000000000)
     = Some ([JObject [(''id'', JNumber 1)], JObject [(''id'', JNumber 2)]], [],
             Inl (HTTPStatusError 502))"
proof -
  let ?p1 = "page [JObject [(''id'', JNumber 1)], JObject [(''id'', JNumber 2)]]
                  (link_value ''u2'' ''next'') ''10'' ''1700''"
  let ?p2 = "page [] (link_value ''u1'' ''prev'') ''10'' ''1700''"
  let ?bad = "\<lparr>status_code = 502, headers = Map.empty, body = None\<rparr>"
  let ?clock = "\<lambda>n::nat. 1000000000 :: int"
  have pass: "page_passes utc ?p1 1000000000" "page_passes utc ?p2 1000000000"
    by (simp_all add: page_passes_def page_def is_success_def response_items_def
        response_json_def iterate_def wait_for_rate_limit_def parse_defs)
  have l: "headers ?p1 ''link'' = Some (link_value ''u2'' ''next'')"
    "headers ?p2 ''link'' = Some (link_value ''u1'' ''prev'')"
    by (simp_all add: page_def)
  have g: "http_get (two_urls ''u1'' ?p1 ''u2'' ?p2) ''u1'' = Responded ?p1"
    "http_get (two_urls ''u1'' ?p1 ''u2'' ?p2) ''u2'' = Responded ?p2"
    "http_get (two_urls ''u1'' ?p1 ''u2'' ?bad) ''u1'' = Responded ?p1"
    "http_get (two_urls ''u1'' ?p1 ''u2'' ?bad) ''u2'' = Responded ?bad"
    by (simp_all add: two_urls_def)
  have c1: "chain_end (two_urls ''u1'' ?p1 ''u2'' ?p2) utc ?clock 0 [''next'' \<mapsto> ''u1''] [?p1, ?p2]
      = Some [''prev'' \<mapsto> ''u1'']"
    using pass l g by (simp add: rels_next rels_prev)
  have c2: "chain_end (two_urls ''u1'' ?p1 ''u2'' ?bad) utc ?clock 0 [''next'' \<mapsto> ''u1''] [?p1]
      = Some [''next'' \<mapsto> ''u2'']"
    using pass l g by (simp add: rels_next)
  have i: "items_of ?p1 = [JObject [(''id'', JNumber 1)], JObject [(''id'', JNumber 2)]]"
    "items_of ?p2 = []"
    by (simp_all add: items_of_def page_def response_items_def response_json_def iterate_def)
  have r1: "get_all_pages 3 ''u1'' (two_urls ''u1'' ?p1 ''u2'' ?p2) utc ?clock
      = Some ([JObject [(''id'', JNumber 1)], JObject [(''id'', JNumber 2)]], [], Inr ())"
    by (simp add: get_all_pages_def numeral_eq_Suc two_urls_def page_def raise_for_status_def
      is_success_def response_items_def response_json_def iterate_def wait_for_rate_limit_def
      parse_defs link_defs)
  have r2: "get_all_pages 3 ''u1'' (two_urls ''u1'' ?p1 ''u2'' ?bad) utc ?clock
      = Some ([JObject [(''id'', JNumber 1)], JObject [(''id'', JNumber 2)]], [],
             Inl (HTTPStatusError 502))"
    by (simp add: get_all_pages_def numeral_eq_Suc two_urls_def page_def raise_for_status_def
      is_success_def response_items_def response_json_def iterate_def wait_for_rate_limit_def
      parse_defs link_defs)
  have r2': "\<exists>evs. get_all_pages 3 ''u1'' (two_urls ''u1'' ?p1 ''u2'' ?bad) utc ?clock
      = Some ([JObject [(''id'', JNumber 1)], JObject [(''id'', JNumber 2)]], evs,
             Inl (HTTPStatusError 502))"
    using get_all_pages_follows_next_chain [OF c2, of 3] g i
    by (simp add: is_success_def)
  have r1': "\<exists>evs. get_all_pages 3 ''u1'' (two_urls ''u1'' ?p1 ''u2'' ?p2) utc ?clock
      = Some ([JObject [(''id'', JNumber 1)], JObject [(''id'', JNumber 2)]], evs, Inr ())"
    using get_all_pages_follows_next_chain [OF c1, of 3] i by simp
  from c1 c2 r1 r2 r1' r2' show ?thesis by simp
qed

text \<open>
  C10. In any pass of the loop, a page whose request succeeds and whose body yields its
  items but which carries no link header ends the generator with \<open>KeyError\<close>, after the
  items have been yielded and before the rate limiter is consulted: the generator does
  not end normally.
\<close>

theorem missing_link_header_raises_KeyError:
  assumes "rels ''next'' = Some next_url"
    and "http_get http_client next_url = Responded response"
    and "is_success response"
    and "response_items response = Inr page_items"
    and "headers response ''link'' = None"
  shows "pages_loop (Suc fuel) http_client localtime clock n rels yielded evs =
           Some (yielded @ page_items, evs, Inl (KeyError ''link''))"
  using assms by (simp add: raise_for_status_def header_def)

text \<open>
  A listing that fits on one page and comes without a link header.
\<close>

theorem missing_link_header_raises_KeyError_witness:
  "http_get
     (two_urls
        ''u1'' \<lparr>status_code = 200, headers = [''x-ratelimit-remaining'' \<mapsto> ''4999''],
                body = Some (JArray [JObject [(''name'', JString ''app-a'')]])\<rparr>
        ''u2'' \<lparr>status_code = 404, headers = Map.empty, body = None\<rparr>) ''u1''
     = Responded \<lparr>status_code = 200, headers = [''x-ratelimit-remaining'' \<mapsto> ''4999''],
                 body = Some (JArray [JObject [(''name'', JString ''app-a'')]])\<rparr> \<and>
   is_success \<lparr>status_code = 200, headers = [''x-ratelimit-remaining'' \<mapsto> ''4999''],
                body = Some (JArray [JObject [(''name'', JString ''app-a'')]])\<rparr> \<and>
   response_items \<lparr>status_code = 200, headers = [''x-ratelimit-remaining'' \<mapsto> ''4999''],
                body = Some (JArray [JObject [(''name'', JString ''app-a'')]])\<rparr>
     = Inr [JObject [(''name'', JString ''app-a'')]] \<and>
   headers \<lparr>status_code = 200, headers = [''x-ratelimit-remaining'' \<mapsto> ''4999''],
                body = Some (JArray [JObject [(''name'', JString ''app-a'')]])\<rparr> ''link'' = None \<and>
   get_all_pages 1 ''u1''
     (two_urls
        ''u1'' \<lparr>status_code = 200, headers = [''x-ratelimit-remaining'' \<mapsto> ''4999''],
                body = Some (JArray [JObject [(''name'', JString ''app-a'')]])\<rparr>
        ''u2'' \<lparr>status_code = 404, headers = Map.empty, body = None\<rparr>)
     utc (\<lambda>n. 1000000000)
     = Some ([JObject [(''name'', JString ''app-a'')]], [], Inl (KeyError ''link''))"
proof -
  let ?r = "\<lparr>status_code = 200, headers = [''x-ratelimit-remaining'' \<mapsto> ''4999''],
                body = Some (JArray [JObject [(''name'', JString ''app-a'')]])\<rparr>"
  let ?c = "two_urls ''u1'' ?r ''u2'' \<lparr>status_code = 404, headers = Map.empty, body = None\<rparr>"
  have n: "[''next'' \<mapsto> ''u1''] ''next'' = Some ''u1''" by simp
  have g: "http_get ?c ''u1'' = Responded ?r" by (simp add: two_urls_def)
  have s: "is_success ?r" by (simp add: is_success_def)
  have i: "response_items ?r = Inr [JObject [(''name'', JString ''app-a'')]]"
    by (simp add: response_items_def response_json_def iterate_def)
  have l: "headers ?r ''link'' = None" by simp
  have "get_all_pages 1 ''u1'' ?c utc (\<lambda>n. 1000000000)
      = Some ([JObject [(''name'', JString ''app-a'')]], [], Inl (KeyError ''link''))"
    using missing_link_header_raises_KeyError
      [where rels = "[''next'' \<mapsto> ''u1'']" and next_url = "''u1''" and http_client = ?c
         and response = ?r and page_items = "[JObject [(''name'', JString ''app-a'')]]"
         and fuel = 0 and localtime = utc and clock = "\<lambda>n. 1000000000" and n = 0 and yielded = "[]" and evs = "[]",
       OF n g s i l]
    by (simp add: get_all_pages_def)
  with g s i l show ?thesis by simp
qed

section \<open>Properties of the deletion scheduler\<close>













end
